theory Spec2Isabelle
  imports Complex_Main "HOL-Library.Word"
begin

section \<open>The wheel: data model of main.cpp\<close>

text \<open>
  \<^verbatim>\<open>SDL_Color\<close> has four \<^verbatim>\<open>Uint8\<close> channels; \<^verbatim>\<open>WheelEntry\<close> is a name with a colour.
\<close>

datatype sdl_color = SDL_Color "8 word" "8 word" "8 word" "8 word"

record wheel_entry =
  name :: string
  color :: sdl_color

record twitch_config =
  oauth :: string
  nick :: string
  channel :: string

text \<open>
  The calls made to the countdown timer. \<^verbatim>\<open>timer_reset\<close>, \<^verbatim>\<open>timer_start\<close> and
  \<^verbatim>\<open>timer_stop\<close> are called by \<^verbatim>\<open>set_join_open\<close> but defined outside main.cpp, so
  the model records each call, in order, and says nothing about what the timer does.
\<close>

datatype timer_call = Timer_reset real | Timer_start | Timer_stop

text \<open>
  \<^verbatim>\<open>AppState\<close>, field by field. The \<^verbatim>\<open>float\<close> fields are real numbers here; the
  rounding of each \<^verbatim>\<open>float\<close> operation is an explicit parameter of the functions
  that compute with them (see below). Window, renderer, fonts and textures are
  presentation only and left out, as is the drifting background.

  Three pieces of state that the program keeps outside \<^verbatim>\<open>AppState\<close> are fields of
  the record as well: the \<^verbatim>\<open>static std::atomic<uint32_t> idx\<close> of \<^verbatim>\<open>random_color\<close>
  (\<open>palette_idx\<close>), the lines handed to \<^verbatim>\<open>send_line\<close> (\<open>sent_lines\<close>) and the
  calls to the timer (\<open>timer_calls\<close>).
\<close>

record app_state =
  entries :: "wheel_entry list"
  current_angle :: real
  angular_velocity :: real
  spinning :: bool
  winner_index :: int
  winner_flash_remaining :: real
  winner_flash_elapsed :: real
  celebration_active :: bool
  celebration_time :: real
  celebration_name :: string
  celebration_color :: sdl_color
  spin_friction :: real
  reset_hold_active :: bool
  reset_hold_elapsed :: real
  reset_hold_source :: int
  authorized :: bool
  join_open :: bool
  palette_idx :: "32 word"
  sent_lines :: "string list"
  timer_calls :: "timer_call list"

text \<open>The value of a default-constructed \<^verbatim>\<open>AppState\<close> (the global \<^verbatim>\<open>app\<close>).\<close>

definition app_init :: app_state where
  "app_init = \<lparr> entries = [], current_angle = 0, angular_velocity = 0, spinning = False,
     winner_index = - 1, winner_flash_remaining = 0, winner_flash_elapsed = 0,
     celebration_active = False, celebration_time = 0, celebration_name = [],
     celebration_color = SDL_Color 255 255 255 255, spin_friction = 3,
     reset_hold_active = False, reset_hold_elapsed = 0, reset_hold_source = 0,
     authorized = False, join_open = False, palette_idx = 0, sent_lines = [],
     timer_calls = [] \<rparr>"

section \<open>The participant registry\<close>

text \<open>
  \<^verbatim>\<open>random_color\<close>: a round-robin palette of four colours, indexed by a counter that
  is incremented (modulo \<open>2^32\<close>) on every call and is never reset.
\<close>

definition palette :: "sdl_color list" where
  "palette = [SDL_Color 0 100 0 255, SDL_Color 100 170 120 255,
              SDL_Color 255 165 0 255, SDL_Color 240 210 60 255]"

definition random_color :: "32 word \<Rightarrow> sdl_color \<times> 32 word" where
  "random_color idx = (palette ! (unat idx mod 4), idx + 1)"

text \<open>
  \<^verbatim>\<open>add_player_if_new(name, entries, entries_mutex)\<close>: returns at once on an empty
  name; otherwise \<^verbatim>\<open>std::find_if\<close> looks for an entry with an equal name
  (\<^verbatim>\<open>std::string ==\<close>, byte for byte) and, when there is none, a new entry with
  the next palette colour is pushed at the back. The mutex makes the body atomic;
  the model is sequential.
\<close>

definition add_player_if_new ::
  "string \<Rightarrow> wheel_entry list \<times> 32 word \<Rightarrow> wheel_entry list \<times> 32 word" where
  "add_player_if_new nm reg =
     (case reg of (es, idx) \<Rightarrow>
        if nm = [] then (es, idx)
        else (case find (\<lambda>w. name w = nm) es of
                Some w \<Rightarrow> (es, idx)
              | None \<Rightarrow> (case random_color idx of
                           (c, idx') \<Rightarrow> (es @ [\<lparr> name = nm, color = c \<rparr>], idx'))))"

text \<open>The same call on the global state: every caller passes \<^verbatim>\<open>app.entries\<close>.\<close>

definition add_player :: "string \<Rightarrow> app_state \<Rightarrow> app_state" where
  "add_player nm s =
     (case add_player_if_new nm (entries s, palette_idx s) of
        (es, idx) \<Rightarrow> s\<lparr> entries := es, palette_idx := idx \<rparr>)"

text \<open>A sequence of calls, from left to right.\<close>

definition add_players ::
  "string list \<Rightarrow> wheel_entry list \<times> 32 word \<Rightarrow> wheel_entry list \<times> 32 word" where
  "add_players nms reg = foldl (\<lambda>r nm. add_player_if_new nm r) reg nms"

text \<open>The names of a registry, in iteration order.\<close>

definition names_of :: "wheel_entry list \<times> 32 word \<Rightarrow> string list" where
  "names_of reg = map name (fst reg)"

text \<open>
  What the insertion order of a sequence of requests should be: the non-empty
  names, each at the place of its first occurrence.
\<close>

fun first_occurrences :: "string list \<Rightarrow> string list \<Rightarrow> string list" where
  "first_occurrences seen [] = []"
| "first_occurrences seen (x # xs) =
     (if x = [] \<or> x \<in> set seen then first_occurrences seen xs
      else x # first_occurrences (seen @ [x]) xs)"

section \<open>Float arithmetic\<close>

text \<open>
  Every \<^verbatim>\<open>float\<close> quantity is a real number, and every \<^verbatim>\<open>float\<close> operation is
  the exact operation followed by a rounding \<open>rnd\<close>, the first parameter of each
  function that computes with floats. \<open>exact\<close> is arithmetic without rounding;
  \<open>round32\<close> is IEEE 754 binary32 with round-to-nearest, ties to even.
  Infinities and NaN are outside the model. Literals that are binary fractions
  (\<open>0\<close>, \<open>0.5\<close>, \<open>1\<close>, \<open>2\<close>, \<open>10\<close>, \<open>13\<close>) are written as they are, the
  others are rounded. An \<^verbatim>\<open>int\<close> that enters a float expression is taken as it
  is (the conversion is exact below \<open>2^24\<close>).
\<close>

type_synonym rounding = "real \<Rightarrow> real"

definition exact :: rounding where
  "exact x = x"





text \<open>\<^verbatim>\<open>static_cast<int>\<close> of a float: the fraction is discarded.\<close>

definition trunc_int :: "real \<Rightarrow> int" where
  "trunc_int x = (if 0 \<le> x then \<lfloor>x\<rfloor> else \<lceil>x\<rceil>)"

text \<open>
  \<^verbatim>\<open>std::fmod(x, y)\<close>: \<open>x - n * y\<close> for the integer \<open>n\<close> that is \<open>x / y\<close> with its
  fraction discarded. The result is exact in IEEE arithmetic, so no rounding.
\<close>

definition fmod :: "real \<Rightarrow> real \<Rightarrow> real" where
  "fmod x y = x - of_int (trunc_int (x / y)) * y"

definition PI :: "rounding \<Rightarrow> real" where
  "PI rnd = rnd (314159265358979323846 / 100000000000000000000)"

definition TWO_PI :: "rounding \<Rightarrow> real" where
  "TWO_PI rnd = rnd (2 * PI rnd)"

definition POINTER_ANGLE :: "rounding \<Rightarrow> real" where
  "POINTER_ANGLE rnd = rnd (- PI rnd * (1 / 2))"

section \<open>Winner resolution\<close>

text \<open>\<^verbatim>\<open>pointer_slice_index(current_angle, n)\<close>, statement by statement.\<close>

definition pointer_slice_index :: "rounding \<Rightarrow> real \<Rightarrow> int \<Rightarrow> int" where
  "pointer_slice_index rnd angle n =
     (if n \<le> 0 then - 1
      else
        let sliceAngle = rnd (TWO_PI rnd / of_int n);
            a = fmod (rnd (POINTER_ANGLE rnd - angle)) (TWO_PI rnd);
            a = (if a < 0 then rnd (a + TWO_PI rnd) else a);
            index = trunc_int (rnd (a / sliceAngle));
            index = (if n \<le> index then n - 1 else index)
        in index)"



section \<open>Spin, reset and the engagement gate\<close>

definition winnerShowing :: "app_state \<Rightarrow> bool" where
  "winnerShowing s = (celebration_active s \<or> 0 \<le> winner_index s)"

text \<open>
  \<^verbatim>\<open>std::uniform_real_distribution<float>(a, b)\<close> applied to \<^verbatim>\<open>global_rng()\<close>: the
  library computes \<open>(b - a) * u + a\<close> in \<^verbatim>\<open>float\<close>, every operation rounded, from
  the engine's canonical variate \<open>u\<close>, a float with \<open>0 \<le> u < 1\<close>. The engine is
  \<^verbatim>\<open>std::mt19937\<close>; its two variates for a spin are inputs of the model, the one
  for the friction first, as the program draws them.
\<close>

record rng_draws =
  u_friction :: real
  u_speed :: real

definition uniform_real_distribution :: "rounding \<Rightarrow> real \<Rightarrow> real \<Rightarrow> real \<Rightarrow> real" where
  "uniform_real_distribution rnd a b u = rnd (rnd (rnd (b - a) * u) + a)"

text \<open>
  \<^verbatim>\<open>handle_spin_or_reset(app, cfg)\<close>: with a winner showing it resets the round and
  afterwards adds the channel owner; otherwise it starts a spin when there are
  two entries or more, the wheel is idle and the gate is closed.
\<close>

definition handle_spin_or_reset ::
  "rounding \<Rightarrow> twitch_config \<Rightarrow> rng_draws \<Rightarrow> app_state \<Rightarrow> app_state" where
  "handle_spin_or_reset rnd cfg d s =
     (if celebration_active s \<or> 0 \<le> winner_index s then
        let s1 = s\<lparr> celebration_active := False, celebration_time := 0, celebration_name := [],
                    winner_flash_remaining := 0, winner_flash_elapsed := 0, winner_index := - 1,
                    spinning := False, angular_velocity := 0,
                    entries := [], join_open := False \<rparr>
        in if nick cfg \<noteq> [] then add_player (nick cfg) s1 else s1
      else if 2 \<le> length (entries s) \<and> \<not> spinning s \<and> \<not> join_open s then
        s\<lparr> spinning := True, winner_index := - 1,
           winner_flash_remaining := 0, winner_flash_elapsed := 0,
           spin_friction := uniform_real_distribution rnd (rnd (18 / 10)) (rnd (56 / 10)) (u_friction d),
           angular_velocity := uniform_real_distribution rnd 10 13 (u_speed d) \<rparr>
      else s)"

text \<open>\<^verbatim>\<open>wheel_spin()\<close>, the entry point exported to the web page.\<close>

definition wheel_spin :: "rounding \<Rightarrow> rng_draws \<Rightarrow> app_state \<Rightarrow> app_state" where
  "wheel_spin rnd d s =
     (if length (entries s) < 2 \<or> spinning s then s
      else if join_open s then s
      else s\<lparr> spinning := True, winner_index := - 1,
              winner_flash_remaining := 0, winner_flash_elapsed := 0,
              spin_friction := uniform_real_distribution rnd (rnd (18 / 10)) (rnd (56 / 10)) (u_friction d),
              angular_velocity := uniform_real_distribution rnd 10 13 (u_speed d) \<rparr>)"

text \<open>
  \<^verbatim>\<open>set_join_open(a, open)\<close>. \<^verbatim>\<open>TIMER_START_SECONDS\<close> is defined outside main.cpp
  (the comment says 60) and is a parameter.
\<close>

definition set_join_open :: "real \<Rightarrow> bool \<Rightarrow> app_state \<Rightarrow> app_state" where
  "set_join_open TIMER_START_SECONDS open' s =
     (let wasOpen = join_open s in
      if wasOpen = open' then s
      else
        let s1 = s\<lparr> join_open := open' \<rparr> in
        if open' then s1\<lparr> timer_calls := timer_calls s1 @ [Timer_reset TIMER_START_SECONDS, Timer_start] \<rparr>
        else s1\<lparr> timer_calls := timer_calls s1 @ [Timer_stop] \<rparr>)"

section \<open>Input events\<close>

datatype sdl_key = SDLK_ESCAPE | SDLK_SPACE | SDLK_OTHER

datatype sdl_button = SDL_BUTTON_LEFT | SDL_BUTTON_RIGHT | SDL_BUTTON_OTHER

datatype sdl_event =
    SDL_EVENT_QUIT
  | SDL_EVENT_KEY_DOWN sdl_key
  | SDL_EVENT_KEY_UP sdl_key
  | SDL_EVENT_MOUSE_BUTTON_DOWN sdl_button
  | SDL_EVENT_MOUSE_BUTTON_UP sdl_button
  | SDL_EVENT_OTHER

text \<open>
  The two blocks that the event loops repeat inline: starting a reset hold
  (source 1 is the space bar, 2 the mouse) and cancelling it.
\<close>

definition start_reset_hold :: "int \<Rightarrow> app_state \<Rightarrow> app_state" where
  "start_reset_hold src s =
     (if \<not> reset_hold_active s
      then s\<lparr> reset_hold_active := True, reset_hold_elapsed := 0, reset_hold_source := src \<rparr>
      else s)"

definition cancel_reset_hold :: "app_state \<Rightarrow> app_state" where
  "cancel_reset_hold s = s\<lparr> reset_hold_active := False, reset_hold_elapsed := 0, reset_hold_source := 0 \<rparr>"

text \<open>
  One event in the desktop loop of \<^verbatim>\<open>main\<close> (the \<^verbatim>\<open>#else\<close> branch). Quit and
  Escape only set the loop's local flag \<^verbatim>\<open>quit\<close>, which \<open>main_event_quit\<close> gives.
\<close>

definition main_event ::
  "rounding \<Rightarrow> twitch_config \<Rightarrow> rng_draws \<Rightarrow> sdl_event \<Rightarrow> app_state \<Rightarrow> app_state" where
  "main_event rnd cfg d e s =
     (case e of
        SDL_EVENT_QUIT \<Rightarrow> s
      | SDL_EVENT_KEY_DOWN key \<Rightarrow>
          if key = SDLK_ESCAPE then s
          else if key = SDLK_SPACE then
            (if winnerShowing s then start_reset_hold 1 s
             else handle_spin_or_reset rnd cfg d s)
          else s
      | SDL_EVENT_KEY_UP key \<Rightarrow>
          if key = SDLK_SPACE \<and> reset_hold_source s = 1 then cancel_reset_hold s else s
      | SDL_EVENT_MOUSE_BUTTON_DOWN button \<Rightarrow>
          if button = SDL_BUTTON_LEFT then
            (if winnerShowing s then start_reset_hold 2 s
             else handle_spin_or_reset rnd cfg d s)
          else if button = SDL_BUTTON_RIGHT then
            (let current = join_open s in s\<lparr> join_open := \<not> current \<rparr>)
          else s
      | SDL_EVENT_MOUSE_BUTTON_UP button \<Rightarrow>
          if button = SDL_BUTTON_LEFT \<and> reset_hold_source s = 2 then cancel_reset_hold s else s
      | SDL_EVENT_OTHER \<Rightarrow> s)"

definition main_event_quit :: "sdl_event \<Rightarrow> bool \<Rightarrow> bool" where
  "main_event_quit e quit =
     (case e of
        SDL_EVENT_QUIT \<Rightarrow> True
      | SDL_EVENT_KEY_DOWN key \<Rightarrow> (if key = SDLK_ESCAPE then True else quit)
      | _ \<Rightarrow> quit)"

text \<open>One event in the browser loop (the \<^verbatim>\<open>__EMSCRIPTEN__\<close> branch).\<close>

definition emscripten_event ::
  "rounding \<Rightarrow> twitch_config \<Rightarrow> rng_draws \<Rightarrow> sdl_event \<Rightarrow> app_state \<Rightarrow> app_state" where
  "emscripten_event rnd cfg d e s =
     (case e of
        SDL_EVENT_QUIT \<Rightarrow> s
      | SDL_EVENT_KEY_DOWN key \<Rightarrow>
          if key = SDLK_SPACE then
            (let isOpen = join_open s in
             if isOpen then s
             else if winnerShowing s then start_reset_hold 1 s
             else handle_spin_or_reset rnd cfg d s)
          else s
      | SDL_EVENT_KEY_UP key \<Rightarrow>
          if key = SDLK_SPACE \<and> reset_hold_source s = 1 then cancel_reset_hold s else s
      | SDL_EVENT_MOUSE_BUTTON_DOWN button \<Rightarrow>
          if button = SDL_BUTTON_LEFT then
            (let isOpen = join_open s in
             if isOpen then s
             else if winnerShowing s then start_reset_hold 2 s
             else handle_spin_or_reset rnd cfg d s)
          else if button = SDL_BUTTON_RIGHT then
            (if winnerShowing s then s
             else (let current = join_open s in s\<lparr> join_open := \<not> current \<rparr>))
          else s
      | SDL_EVENT_MOUSE_BUTTON_UP button \<Rightarrow>
          if button = SDL_BUTTON_LEFT \<and> reset_hold_source s = 2 then cancel_reset_hold s else s
      | SDL_EVENT_OTHER \<Rightarrow> s)"

section \<open>The simulation tick\<close>

text \<open>
  \<^verbatim>\<open>frame(cfg, dt)\<close> without its rendering, block by block. The entries are
  copied, and counted, before anything else.
\<close>

definition frame_reset_hold ::
  "rounding \<Rightarrow> twitch_config \<Rightarrow> rng_draws \<Rightarrow> real \<Rightarrow> app_state \<Rightarrow> app_state" where
  "frame_reset_hold rnd cfg d dt s =
     (if reset_hold_active s then
        (if \<not> winnerShowing s then
           s\<lparr> reset_hold_active := False, reset_hold_elapsed := 0, reset_hold_source := 0 \<rparr>
         else
           let s1 = s\<lparr> reset_hold_elapsed := rnd (reset_hold_elapsed s + dt) \<rparr> in
           if 1 \<le> reset_hold_elapsed s1 then
             handle_spin_or_reset rnd cfg d
               (s1\<lparr> reset_hold_active := False, reset_hold_elapsed := 0, reset_hold_source := 0 \<rparr>)
           else s1)
      else s)"

definition frame_physics ::
  "rounding \<Rightarrow> wheel_entry list \<Rightarrow> real \<Rightarrow> app_state \<Rightarrow> app_state" where
  "frame_physics rnd entriesCopy dt s =
     (let n = int (length entriesCopy) in
      if spinning s \<and> 0 < n then
        let s1 = s\<lparr> current_angle := rnd (current_angle s + rnd (angular_velocity s * dt)) \<rparr>;
            s2 = s1\<lparr> current_angle := fmod (current_angle s1) (TWO_PI rnd) \<rparr>;
            s3 = (if current_angle s2 < 0
                  then s2\<lparr> current_angle := rnd (current_angle s2 + TWO_PI rnd) \<rparr> else s2);
            friction = max 0 (spin_friction s3);
            s4 = s3\<lparr> angular_velocity := rnd (angular_velocity s3 - rnd (friction * dt)) \<rparr>
        in
          if angular_velocity s4 \<le> 0 then
            let s5 = s4\<lparr> angular_velocity := 0, spinning := False \<rparr> in
            if 0 < n then
              let idx = pointer_slice_index rnd (current_angle s5) n in
              if 0 \<le> idx \<and> idx < n then
                s5\<lparr> winner_index := idx,
                    celebration_active := True, celebration_time := 0,
                    celebration_name := name (entriesCopy ! nat idx),
                    celebration_color := color (entriesCopy ! nat idx),
                    winner_flash_remaining := 2, winner_flash_elapsed := 0 \<rparr>
              else s5
            else s5
          else s4
      else s)"

definition frame_flash :: "rounding \<Rightarrow> real \<Rightarrow> app_state \<Rightarrow> app_state" where
  "frame_flash rnd dt s =
     (if 0 < winner_flash_remaining s then
        let s1 = s\<lparr> winner_flash_remaining := rnd (winner_flash_remaining s - dt),
                    winner_flash_elapsed := rnd (winner_flash_elapsed s + dt) \<rparr>
        in if winner_flash_remaining s1 < 0 then s1\<lparr> winner_flash_remaining := 0 \<rparr> else s1
      else s)"

definition frame_celebration :: "rounding \<Rightarrow> real \<Rightarrow> app_state \<Rightarrow> app_state" where
  "frame_celebration rnd dt s =
     (if celebration_active s then s\<lparr> celebration_time := rnd (celebration_time s + dt) \<rparr> else s)"

definition frame ::
  "rounding \<Rightarrow> twitch_config \<Rightarrow> rng_draws \<Rightarrow> real \<Rightarrow> app_state \<Rightarrow> app_state" where
  "frame rnd cfg d dt s =
     (let entriesCopy = entries s in
      frame_celebration rnd dt
        (frame_flash rnd dt
          (frame_physics rnd entriesCopy dt
            (frame_reset_hold rnd cfg d dt s))))"



section \<open>The chat session: one line\<close>

text \<open>
  \<^verbatim>\<open>std::string::find(pattern, pos)\<close>: the first position at or after \<open>pos\<close> where
  the pattern starts; \<open>None\<close> is \<^verbatim>\<open>npos\<close>.
\<close>

fun find_from :: "string \<Rightarrow> string \<Rightarrow> nat \<Rightarrow> nat option" where
  "find_from pat [] i = (if pat = [] then Some i else None)"
| "find_from pat (c # cs) i =
     (if take (length pat) (c # cs) = pat then Some i else find_from pat cs (Suc i))"

definition string_find :: "string \<Rightarrow> string \<Rightarrow> nat \<Rightarrow> nat option" where
  "string_find s pat pos = (if length s < pos then None else find_from pat (drop pos s) pos)"

text \<open>\<^verbatim>\<open>s.rfind(pattern, 0) == 0\<close>: the string starts with the pattern.\<close>

definition starts_with :: "string \<Rightarrow> string \<Rightarrow> bool" where
  "starts_with s pat = (take (length pat) s = pat)"

text \<open>\<^verbatim>\<open>std::tolower\<close> in the C locale, byte by byte.\<close>

definition tolower :: "char \<Rightarrow> char" where
  "tolower c = (let k = (of_char c :: nat) in if 65 \<le> k \<and> k \<le> 90 then char_of (k + 32) else c)"

definition to_lower :: "string \<Rightarrow> string" where
  "to_lower s = map tolower s"

text \<open>
  \<^verbatim>\<open>parse_username_from_irc_line\<close>: the empty string stands for a failed
  extraction, as in the source (\<^verbatim>\<open>return {}\<close>).
\<close>

definition parse_username_from_irc_line :: "string \<Rightarrow> string" where
  "parse_username_from_irc_line line =
     (case (if line \<noteq> [] \<and> line ! 0 = CHR ''@''
            then (case string_find line '' '' 0 of None \<Rightarrow> None | Some space \<Rightarrow> Some (space + 1))
            else Some 0) of
        None \<Rightarrow> []
      | Some idx \<Rightarrow>
          if idx < length line \<and> line ! idx = CHR '':'' then
            (let prefix_start = idx + 1 in
             case string_find line ''!'' prefix_start of
               Some ex \<Rightarrow> take (ex - prefix_start) (drop prefix_start line)
             | None \<Rightarrow> [])
          else [])"

text \<open>
  \<^verbatim>\<open>handle_irc_line\<close>: \<^verbatim>\<open>send_line(sock, l)\<close> is recorded in \<open>sent_lines\<close>; the
  messages written to \<^verbatim>\<open>std::cout\<close> are not modelled.
\<close>

definition handle_irc_line :: "string \<Rightarrow> app_state \<Rightarrow> app_state" where
  "handle_irc_line line s =
     (if line = [] then s
      else if starts_with line ''PING'' then
        (let payload = (case string_find line '':'' 0 of
                          Some colon \<Rightarrow> drop (colon + 1) line
                        | None \<Rightarrow> ''tmi.twitch.tv'')
         in s\<lparr> sent_lines := sent_lines s @ [''PONG :'' @ payload] \<rparr>)
      else
        (case string_find line ''PRIVMSG'' 0 of
           None \<Rightarrow> s
         | Some priv \<Rightarrow>
             let username = parse_username_from_irc_line line in
             (case string_find line '' :'' priv of
                None \<Rightarrow> s
              | Some colonAfterPriv \<Rightarrow>
                  let message = drop (colonAfterPriv + 2) line;
                      lower = to_lower message
                  in if starts_with lower ''!join'' then
                       (if join_open s then add_player username s else s)
                     else s)))"

section \<open>Predicates on runs of the tick\<close>



section \<open>Example configurations\<close>

text \<open>Concrete inputs on which the theorems below are instantiated.\<close>

definition host_cfg :: twitch_config where
  "host_cfg = \<lparr> oauth = ''oauth:token'', nick = ''host'', channel = ''#host'' \<rparr>"

definition draws0 :: rng_draws where
  "draws0 = \<lparr> u_friction = 1 / 2, u_speed = 1 / 2 \<rparr>"

definition two_players :: "wheel_entry list" where
  "two_players = [\<lparr> name = ''alice'', color = SDL_Color 0 100 0 255 \<rparr>,
                  \<lparr> name = ''bob'', color = SDL_Color 100 170 120 255 \<rparr>]"

text \<open>A winner display: \<open>bob\<close> has won, the celebration runs.\<close>

definition winner_display :: app_state where
  "winner_display = app_init\<lparr> entries := two_players, palette_idx := 2, winner_index := 1,
     celebration_active := True, celebration_name := ''bob'' \<rparr>"




section \<open>The round reset, as a predicate\<close>

text \<open>
  What the reset of a round leaves behind, read off the state \<open>s'\<close> after it:
  no winner, no celebration, no flash, an idle wheel, a closed gate, no hold,
  and a registry that holds the channel owner alone when a nick is configured
  and nothing otherwise. The owner gets the next palette colour of the state
  \<open>s\<close> before the reset.
\<close>

definition round_is_reset :: "twitch_config \<Rightarrow> app_state \<Rightarrow> app_state \<Rightarrow> bool" where
  "round_is_reset cfg s s' =
     (winner_index s' = - 1 \<and> \<not> celebration_active s' \<and> celebration_time s' = 0
      \<and> celebration_name s' = [] \<and> winner_flash_remaining s' = 0 \<and> winner_flash_elapsed s' = 0
      \<and> \<not> spinning s' \<and> angular_velocity s' = 0 \<and> \<not> join_open s'
      \<and> \<not> reset_hold_active s' \<and> reset_hold_elapsed s' = 0 \<and> reset_hold_source s' = 0
      \<and> entries s' = (if nick cfg = [] then []
                       else [\<lparr> name = nick cfg, color = palette ! (unat (palette_idx s) mod 4) \<rparr>]))"

section \<open>Properties of the registry\<close>

lemma find_name_None: "find (\<lambda>w. name w = nm) es = None \<longleftrightarrow> nm \<notin> set (map name es)"
  by (auto simp: find_None_iff)

lemma names_of_add:
  "names_of (add_player_if_new nm reg) =
     (if nm \<noteq> [] \<and> nm \<notin> set (names_of reg) then names_of reg @ [nm] else names_of reg)"
proof (cases reg)
  case (Pair es idx)
  show ?thesis
  proof (cases "find (\<lambda>w. name w = nm) es")
    case None
    then have "nm \<notin> set (map name es)" by (simp add: find_name_None)
    with None Pair show ?thesis
      by (simp add: add_player_if_new_def names_of_def random_color_def)
  next
    case (Some w)
    then have "nm \<in> set (map name es)"
      using find_name_None [of nm es] by simp
    with Some Pair show ?thesis
      by (simp add: add_player_if_new_def names_of_def)
  qed
qed

lemma names_of_add_players:
  "names_of (add_players nms reg) = names_of reg @ first_occurrences (names_of reg) nms"
proof (induction nms arbitrary: reg)
  case Nil
  show ?case by (simp add: add_players_def)
next
  case (Cons nm nms)
  have "names_of (add_players (nm # nms) reg) = names_of (add_players nms (add_player_if_new nm reg))"
    by (simp add: add_players_def)
  also have "\<dots> = names_of (add_player_if_new nm reg)
                   @ first_occurrences (names_of (add_player_if_new nm reg)) nms"
    by (rule Cons.IH)
  finally show ?case by (simp add: names_of_add)
qed

lemma distinct_add:
  "distinct (names_of reg) \<Longrightarrow> distinct (names_of (add_player_if_new nm reg))"
  by (simp add: names_of_add)

lemma distinct_add_players:
  "distinct (names_of reg) \<Longrightarrow> distinct (names_of (add_players nms reg))"
proof (induction nms arbitrary: reg)
  case Nil
  then show ?case by (simp add: add_players_def)
next
  case (Cons nm nms)
  have "add_players (nm # nms) reg = add_players nms (add_player_if_new nm reg)"
    by (simp add: add_players_def)
  with Cons show ?case by (simp add: distinct_add)
qed

text \<open>
  Claim C6. \<^verbatim>\<open>add_player_if_new\<close> appends a participant exactly when the name is
  non-empty and no entry has that very name (equality of strings, so \<open>Alice\<close>
  and \<open>alice\<close> differ), and changes nothing otherwise. Hence, starting from the
  empty registry, any sequence of calls leaves a registry without two equal
  names, whose order is the order of first successful insertion; the calls
  \<open>alice\<close>, \<open>bob\<close>, \<open>alice\<close> leave \<open>[alice, bob]\<close>.
\<close>

theorem C6_add_if_absent:
  "names_of (add_player_if_new nm reg) =
     (if nm \<noteq> [] \<and> nm \<notin> set (names_of reg) then names_of reg @ [nm] else names_of reg)
   \<and> (\<not> (nm \<noteq> [] \<and> nm \<notin> set (names_of reg)) \<longrightarrow> add_player_if_new nm reg = reg)
   \<and> distinct (names_of (add_players nms ([], idx)))
   \<and> names_of (add_players nms ([], idx)) = first_occurrences [] nms
   \<and> names_of (add_players [''alice'', ''bob'', ''alice''] ([], idx)) = [''alice'', ''bob'']
   \<and> names_of (add_player_if_new ''Alice'' (add_players [''alice''] ([], idx)))
        = [''alice'', ''Alice'']"
proof -
  have unchanged: "\<not> (nm \<noteq> [] \<and> nm \<notin> set (names_of reg)) \<longrightarrow> add_player_if_new nm reg = reg"
  proof (cases reg)
    case (Pair es idx')
    show ?thesis
    proof (cases "find (\<lambda>w. name w = nm) es")
      case None
      then have "nm \<notin> set (map name es)" by (simp add: find_name_None)
      with Pair show ?thesis by (simp add: add_player_if_new_def names_of_def)
    next
      case (Some w)
      with Pair show ?thesis by (simp add: add_player_if_new_def)
    qed
  qed
  have empty: "names_of ([], idx) = []" by (simp add: names_of_def)
  have d: "distinct (names_of (add_players nms ([], idx)))"
    by (rule distinct_add_players) (simp add: empty)
  have order: "names_of (add_players nms ([], idx)) = first_occurrences [] nms" for nms
    using names_of_add_players [of nms "([], idx)"] by (simp add: empty)
  have ex1: "names_of (add_players [''alice'', ''bob'', ''alice''] ([], idx)) = [''alice'', ''bob'']"
    by (simp add: order)
  have ex2: "names_of (add_player_if_new ''Alice'' (add_players [''alice''] ([], idx)))
        = [''alice'', ''Alice'']"
    by (simp add: names_of_add order)
  from names_of_add unchanged d order ex1 ex2 show ?thesis by blast
qed

theorem C6_add_if_absent_witness:
  "names_of (add_player_if_new ''bob'' ([\<lparr> name = ''bob'', color = SDL_Color 0 100 0 255 \<rparr>], 1))
     = [''bob'']
   \<and> add_player_if_new ''bob'' ([\<lparr> name = ''bob'', color = SDL_Color 0 100 0 255 \<rparr>], 1)
     = ([\<lparr> name = ''bob'', color = SDL_Color 0 100 0 255 \<rparr>], 1)
   \<and> add_player_if_new [] ([], 7) = ([], 7)"
  using C6_add_if_absent [of "''bob''" "([\<lparr> name = ''bob'', color = SDL_Color 0 100 0 255 \<rparr>], 1)" "[]" 0]
    C6_add_if_absent [of "[]" "([], 7)" "[]" 0]
  by (simp add: names_of_def)

section \<open>Helper facts about the state\<close>

lemma add_player_empty: "add_player [] s = s"
  by (simp add: add_player_def add_player_if_new_def)

lemma add_player_fields:
  "current_angle (add_player nm s) = current_angle s"
  "angular_velocity (add_player nm s) = angular_velocity s"
  "spinning (add_player nm s) = spinning s"
  "winner_index (add_player nm s) = winner_index s"
  "winner_flash_remaining (add_player nm s) = winner_flash_remaining s"
  "winner_flash_elapsed (add_player nm s) = winner_flash_elapsed s"
  "celebration_active (add_player nm s) = celebration_active s"
  "celebration_time (add_player nm s) = celebration_time s"
  "celebration_name (add_player nm s) = celebration_name s"
  "spin_friction (add_player nm s) = spin_friction s"
  "reset_hold_active (add_player nm s) = reset_hold_active s"
  "reset_hold_elapsed (add_player nm s) = reset_hold_elapsed s"
  "reset_hold_source (add_player nm s) = reset_hold_source s"
  "join_open (add_player nm s) = join_open s"
  "sent_lines (add_player nm s) = sent_lines s"
  "timer_calls (add_player nm s) = timer_calls s"
  by (simp_all add: add_player_def split: prod.splits)

lemma add_player_on_empty:
  "nm \<noteq> [] \<Longrightarrow> entries s = [] \<Longrightarrow>
   entries (add_player nm s) = [\<lparr> name = nm, color = palette ! (unat (palette_idx s) mod 4) \<rparr>]
   \<and> palette_idx (add_player nm s) = palette_idx s + 1"
  by (simp add: add_player_def add_player_if_new_def random_color_def)

lemma start_reset_hold_fields:
  "spinning (start_reset_hold src s) = spinning s"
  "join_open (start_reset_hold src s) = join_open s"
  "entries (start_reset_hold src s) = entries s"
  "winner_index (start_reset_hold src s) = winner_index s"
  "celebration_active (start_reset_hold src s) = celebration_active s"
  "angular_velocity (start_reset_hold src s) = angular_velocity s"
  "spin_friction (start_reset_hold src s) = spin_friction s"
  "current_angle (start_reset_hold src s) = current_angle s"
  "timer_calls (start_reset_hold src s) = timer_calls s"
  by (simp_all add: start_reset_hold_def)

section \<open>Input while a winner is displayed\<close>

text \<open>
  In the browser loop the right mouse button, the space bar and the left mouse
  button leave the gate, the spin and the registry as they are while a winner
  is displayed; in the desktop loop the space bar and the left button do.
\<close>

lemma emscripten_event_ignored_while_winner:
  assumes "winnerShowing s"
    and "e = SDL_EVENT_MOUSE_BUTTON_DOWN SDL_BUTTON_RIGHT \<or> e = SDL_EVENT_KEY_DOWN SDLK_SPACE
         \<or> e = SDL_EVENT_MOUSE_BUTTON_DOWN SDL_BUTTON_LEFT"
  shows "join_open (emscripten_event rnd cfg d e s) = join_open s
     \<and> spinning (emscripten_event rnd cfg d e s) = spinning s
     \<and> angular_velocity (emscripten_event rnd cfg d e s) = angular_velocity s
     \<and> spin_friction (emscripten_event rnd cfg d e s) = spin_friction s
     \<and> current_angle (emscripten_event rnd cfg d e s) = current_angle s
     \<and> winner_index (emscripten_event rnd cfg d e s) = winner_index s
     \<and> entries (emscripten_event rnd cfg d e s) = entries s"
  using assms by (auto simp: emscripten_event_def start_reset_hold_def Let_def split: if_splits)

lemma main_event_spin_trigger_ignored_while_winner:
  assumes "winnerShowing s"
    and "e = SDL_EVENT_KEY_DOWN SDLK_SPACE \<or> e = SDL_EVENT_MOUSE_BUTTON_DOWN SDL_BUTTON_LEFT"
  shows "join_open (main_event rnd cfg d e s) = join_open s
     \<and> spinning (main_event rnd cfg d e s) = spinning s
     \<and> angular_velocity (main_event rnd cfg d e s) = angular_velocity s
     \<and> spin_friction (main_event rnd cfg d e s) = spin_friction s
     \<and> current_angle (main_event rnd cfg d e s) = current_angle s
     \<and> winner_index (main_event rnd cfg d e s) = winner_index s
     \<and> entries (main_event rnd cfg d e s) = entries s"
  using assms by (auto simp: main_event_def start_reset_hold_def Let_def split: if_splits)

text \<open>
  Claim C1, at the input where the desktop loop departs from it. In
  \<open>winner_display\<close> a winner is displayed (index 1, celebration running) and the
  gate is closed; the right mouse button opens the gate all the same, because
  the desktop loop toggles \<open>join_open\<close> without looking at the winner. The
  browser loop leaves the gate closed on the same input.
\<close>

theorem C1_main_right_click_not_ignored:
  "winnerShowing winner_display
   \<and> \<not> join_open winner_display
   \<and> join_open (main_event rnd cfg d (SDL_EVENT_MOUSE_BUTTON_DOWN SDL_BUTTON_RIGHT) winner_display)
   \<and> join_open (emscripten_event rnd cfg d (SDL_EVENT_MOUSE_BUTTON_DOWN SDL_BUTTON_RIGHT) winner_display)
        = join_open winner_display"
  by (simp add: main_event_def emscripten_event_def winnerShowing_def winner_display_def app_init_def)

section \<open>Starting a spin\<close>

lemma handle_spin_or_reset_starts:
  "(\<not> spinning s \<and> spinning (handle_spin_or_reset rnd cfg d s))
     \<longleftrightarrow> (2 \<le> length (entries s) \<and> \<not> spinning s \<and> \<not> winnerShowing s \<and> \<not> join_open s)"
  by (auto simp: handle_spin_or_reset_def winnerShowing_def Let_def add_player_fields)

lemma wheel_spin_starts:
  "(\<not> spinning s \<and> spinning (wheel_spin rnd d s))
     \<longleftrightarrow> (2 \<le> length (entries s) \<and> \<not> spinning s \<and> \<not> join_open s)"
  by (auto simp: wheel_spin_def)

lemma main_event_starts:
  assumes "e = SDL_EVENT_KEY_DOWN SDLK_SPACE \<or> e = SDL_EVENT_MOUSE_BUTTON_DOWN SDL_BUTTON_LEFT"
  shows "(\<not> spinning s \<and> spinning (main_event rnd cfg d e s))
     \<longleftrightarrow> (2 \<le> length (entries s) \<and> \<not> spinning s \<and> \<not> winnerShowing s \<and> \<not> join_open s)"
proof (cases "winnerShowing s")
  case True
  with assms show ?thesis by (auto simp: main_event_def start_reset_hold_fields)
next
  case False
  with assms handle_spin_or_reset_starts [of s rnd cfg d] show ?thesis
    by (auto simp: main_event_def)
qed

lemma emscripten_event_starts:
  assumes "e = SDL_EVENT_KEY_DOWN SDLK_SPACE \<or> e = SDL_EVENT_MOUSE_BUTTON_DOWN SDL_BUTTON_LEFT"
  shows "(\<not> spinning s \<and> spinning (emscripten_event rnd cfg d e s))
     \<longleftrightarrow> (2 \<le> length (entries s) \<and> \<not> spinning s \<and> \<not> winnerShowing s \<and> \<not> join_open s)"
proof (cases "join_open s \<or> winnerShowing s")
  case True
  with assms show ?thesis
    by (auto simp: emscripten_event_def start_reset_hold_fields split: if_splits)
next
  case False
  with assms handle_spin_or_reset_starts [of s rnd cfg d] show ?thesis
    by (auto simp: emscripten_event_def)
qed

lemma spin_started_state:
  "2 \<le> length (entries s) \<Longrightarrow> \<not> spinning s \<Longrightarrow> \<not> join_open s \<Longrightarrow>
   wheel_spin rnd d s =
     s\<lparr> spinning := True, winner_index := - 1,
        winner_flash_remaining := 0, winner_flash_elapsed := 0,
        spin_friction := uniform_real_distribution rnd (rnd (18 / 10)) (rnd (56 / 10)) (u_friction d),
        angular_velocity := uniform_real_distribution rnd 10 13 (u_speed d) \<rparr>
   \<and> (\<not> winnerShowing s \<longrightarrow> handle_spin_or_reset rnd cfg d s = wheel_spin rnd d s)"
  by (simp add: wheel_spin_def handle_spin_or_reset_def winnerShowing_def)

text \<open>
  A spin that \<^verbatim>\<open>handle_spin_or_reset\<close> starts begins with at least two entries,
  \<open>winner_index = -1\<close> and no celebration.
\<close>

lemma handle_spin_or_reset_spin_start:
  assumes "\<not> spinning s" "spinning (handle_spin_or_reset rnd cfg d s)"
  shows "2 \<le> length (entries (handle_spin_or_reset rnd cfg d s))"
    "winner_index (handle_spin_or_reset rnd cfg d s) = - 1"
    "\<not> celebration_active (handle_spin_or_reset rnd cfg d s)"
proof -
  from assms handle_spin_or_reset_starts [of s rnd cfg d]
  have c: "2 \<le> length (entries s)" "\<not> winnerShowing s" "\<not> join_open s" by blast+
  then have "handle_spin_or_reset rnd cfg d s = wheel_spin rnd d s"
    using assms(1) spin_started_state [of s rnd d cfg] by simp
  with c assms(1) spin_started_state [of s rnd d cfg]
  show "2 \<le> length (entries (handle_spin_or_reset rnd cfg d s))"
    "winner_index (handle_spin_or_reset rnd cfg d s) = - 1"
    "\<not> celebration_active (handle_spin_or_reset rnd cfg d s)"
    by (simp_all add: winnerShowing_def)
qed

text \<open>
  Claim C5, at the input where \<^verbatim>\<open>wheel_spin\<close> departs from it. In
  \<open>winner_display\<close> there are two entries, the wheel is idle, the gate is closed
  and a winner is displayed. \<^verbatim>\<open>wheel_spin\<close> starts a spin all the same, and the
  celebration of the old winner stays active during it; \<^verbatim>\<open>handle_spin_or_reset\<close>
  on the same state starts none.
\<close>

theorem C5_wheel_spin_while_winner_shown:
  "2 \<le> length (entries winner_display) \<and> \<not> join_open winner_display
   \<and> winnerShowing winner_display
   \<and> \<not> spinning winner_display
   \<and> spinning (wheel_spin rnd d winner_display)
   \<and> celebration_active (wheel_spin rnd d winner_display)
   \<and> \<not> spinning (handle_spin_or_reset rnd cfg d winner_display)"
  by (simp add: wheel_spin_def handle_spin_or_reset_def winnerShowing_def winner_display_def
      app_init_def two_players_def add_player_fields Let_def)

section \<open>The gate and the countdown timer\<close>

lemma set_join_open_same: "join_open s = b \<Longrightarrow> set_join_open T b s = s"
  by (simp add: set_join_open_def)

lemma set_join_open_edge:
  "join_open s \<noteq> b \<Longrightarrow>
   set_join_open T b s =
     s\<lparr> join_open := b,
        timer_calls := timer_calls s @ (if b then [Timer_reset T, Timer_start] else [Timer_stop]) \<rparr>"
  by (simp add: set_join_open_def Let_def)

text \<open>
  Claim C7 as stated fails for the toggle of the event loops: from the closed
  gate of the initial state, the right mouse button opens the gate and no call
  to the timer is made.
\<close>

theorem C7_toggle_without_timer:
  "\<not> join_open app_init
   \<and> join_open (main_event exact host_cfg draws0 (SDL_EVENT_MOUSE_BUTTON_DOWN SDL_BUTTON_RIGHT) app_init)
   \<and> timer_calls app_init = []
   \<and> timer_calls (main_event exact host_cfg draws0
        (SDL_EVENT_MOUSE_BUTTON_DOWN SDL_BUTTON_RIGHT) app_init) = []
   \<and> join_open (emscripten_event exact host_cfg draws0
        (SDL_EVENT_MOUSE_BUTTON_DOWN SDL_BUTTON_RIGHT) app_init)
   \<and> timer_calls (emscripten_event exact host_cfg draws0
        (SDL_EVENT_MOUSE_BUTTON_DOWN SDL_BUTTON_RIGHT) app_init) = []"
  by (simp add: main_event_def emscripten_event_def winnerShowing_def app_init_def)

text \<open>
  Claim C7, amended. \<^verbatim>\<open>set_join_open\<close> is edge-triggered: called with the value
  the gate already has it changes nothing and calls no timer function; opening a
  closed gate appends one reset and one start, closing an open gate one stop;
  a second call with the same value adds nothing. The right mouse button of the
  two event loops does not go through \<^verbatim>\<open>set_join_open\<close>: it flips the gate (in
  the browser loop only when no winner is showing) and calls no timer function.
\<close>

theorem C7_gate_and_timer:
  "(join_open s = b \<longrightarrow> set_join_open T b s = s)
   \<and> (join_open s \<noteq> b \<longrightarrow>
        join_open (set_join_open T b s) = b
        \<and> timer_calls (set_join_open T b s)
            = timer_calls s @ (if b then [Timer_reset T, Timer_start] else [Timer_stop]))
   \<and> set_join_open T b (set_join_open T b s) = set_join_open T b s
   \<and> timer_calls (main_event rnd cfg d (SDL_EVENT_MOUSE_BUTTON_DOWN SDL_BUTTON_RIGHT) s) = timer_calls s
   \<and> join_open (main_event rnd cfg d (SDL_EVENT_MOUSE_BUTTON_DOWN SDL_BUTTON_RIGHT) s) = (\<not> join_open s)
   \<and> timer_calls (emscripten_event rnd cfg d (SDL_EVENT_MOUSE_BUTTON_DOWN SDL_BUTTON_RIGHT) s) = timer_calls s
   \<and> join_open (emscripten_event rnd cfg d (SDL_EVENT_MOUSE_BUTTON_DOWN SDL_BUTTON_RIGHT) s)
        = (if winnerShowing s then join_open s else \<not> join_open s)"
proof -
  have twice: "set_join_open T b (set_join_open T b s) = set_join_open T b s"
    by (cases "join_open s = b") (simp_all add: set_join_open_same set_join_open_edge)
  have m: "timer_calls (main_event rnd cfg d (SDL_EVENT_MOUSE_BUTTON_DOWN SDL_BUTTON_RIGHT) s) = timer_calls s"
    "join_open (main_event rnd cfg d (SDL_EVENT_MOUSE_BUTTON_DOWN SDL_BUTTON_RIGHT) s) = (\<not> join_open s)"
    by (simp_all add: main_event_def)
  have w: "timer_calls (emscripten_event rnd cfg d (SDL_EVENT_MOUSE_BUTTON_DOWN SDL_BUTTON_RIGHT) s) = timer_calls s"
    "join_open (emscripten_event rnd cfg d (SDL_EVENT_MOUSE_BUTTON_DOWN SDL_BUTTON_RIGHT) s)
        = (if winnerShowing s then join_open s else \<not> join_open s)"
    by (simp_all add: emscripten_event_def)
  show ?thesis
    using twice m w by (simp add: set_join_open_same set_join_open_edge)
qed

theorem C7_gate_and_timer_witness:
  "timer_calls (set_join_open 60 True app_init) = [Timer_reset 60, Timer_start]
   \<and> join_open (set_join_open 60 True app_init)
   \<and> timer_calls (set_join_open 60 True (set_join_open 60 True app_init)) = [Timer_reset 60, Timer_start]
   \<and> timer_calls (set_join_open 60 False (set_join_open 60 True app_init))
        = [Timer_reset 60, Timer_start, Timer_stop]
   \<and> set_join_open 60 False app_init = app_init"
  using C7_gate_and_timer [of app_init True 60]
        C7_gate_and_timer [of "set_join_open 60 True app_init" False 60]
        C7_gate_and_timer [of app_init False 60]
  by (simp add: app_init_def)

section \<open>Chat lines that do not parse\<close>

text \<open>
  Claim C9. A line that starts with \<open>PING\<close> is a keepalive probe; any other line
  that contains \<open>PRIVMSG\<close> is a chat message. For a chat message whose sender
  extraction fails (\<^verbatim>\<open>parse_username_from_irc_line\<close> returns the empty string)
  or whose text extraction fails (no \<open>" :"\<close> at or after the marker),
  \<^verbatim>\<open>handle_irc_line\<close> returns the state it was given: the registry and the
  palette counter are unchanged and nothing is sent, also when the text is a
  join command and the gate is open.
\<close>

theorem C9_parse_miss_ignored:
  assumes "\<not> starts_with line ''PING''"
    and "string_find line ''PRIVMSG'' 0 = Some priv"
    and "parse_username_from_irc_line line = [] \<or> string_find line '' :'' priv = None"
  shows "handle_irc_line line s = s"
proof (cases "string_find line '' :'' priv")
  case None
  with assms(1,2) show ?thesis by (simp add: handle_irc_line_def)
next
  case (Some c)
  with assms(3) have "parse_username_from_irc_line line = []" by simp
  with Some assms(1,2) show ?thesis
    by (simp add: handle_irc_line_def Let_def add_player_empty)
qed

theorem C9_parse_miss_ignored_witness:
  "handle_irc_line ''PRIVMSG #chan :!join'' (app_init\<lparr> join_open := True \<rparr>)
     = app_init\<lparr> join_open := True \<rparr>
   \<and> handle_irc_line '':alice!a@b PRIVMSG #chan'' (app_init\<lparr> join_open := True \<rparr>)
     = app_init\<lparr> join_open := True \<rparr>"
proof -
  have a: "\<not> starts_with ''PRIVMSG #chan :!join'' ''PING''"
    by (simp add: starts_with_def)
  have b: "string_find ''PRIVMSG #chan :!join'' ''PRIVMSG'' 0 = Some 0"
    by (simp add: string_find_def)
  have c: "parse_username_from_irc_line ''PRIVMSG #chan :!join'' = []"
    by (simp add: parse_username_from_irc_line_def)
  have a': "\<not> starts_with '':alice!a@b PRIVMSG #chan'' ''PING''"
    by (simp add: starts_with_def)
  have b': "string_find '':alice!a@b PRIVMSG #chan'' ''PRIVMSG'' 0 = Some 11"
    by (simp add: string_find_def)
  have c': "string_find '':alice!a@b PRIVMSG #chan'' '' :'' 11 = None"
    by (simp add: string_find_def)
  show ?thesis
    using C9_parse_miss_ignored [OF a b disjI1 [OF c]] C9_parse_miss_ignored [OF a' b' disjI2 [OF c']]
    by simp
qed

section \<open>The tick: reset hold\<close>

lemma frame_celebration_fields:
  "reset_hold_active (frame_celebration rnd dt s) = reset_hold_active s"
  "reset_hold_elapsed (frame_celebration rnd dt s) = reset_hold_elapsed s"
  "reset_hold_source (frame_celebration rnd dt s) = reset_hold_source s"
  "winner_index (frame_celebration rnd dt s) = winner_index s"
  "celebration_active (frame_celebration rnd dt s) = celebration_active s"
  "spinning (frame_celebration rnd dt s) = spinning s"
  "current_angle (frame_celebration rnd dt s) = current_angle s"
  "angular_velocity (frame_celebration rnd dt s) = angular_velocity s"
  "spin_friction (frame_celebration rnd dt s) = spin_friction s"
  "entries (frame_celebration rnd dt s) = entries s"
  by (simp_all add: frame_celebration_def)

lemma frame_flash_fields:
  "reset_hold_active (frame_flash rnd dt s) = reset_hold_active s"
  "reset_hold_elapsed (frame_flash rnd dt s) = reset_hold_elapsed s"
  "reset_hold_source (frame_flash rnd dt s) = reset_hold_source s"
  "winner_index (frame_flash rnd dt s) = winner_index s"
  "celebration_active (frame_flash rnd dt s) = celebration_active s"
  "spinning (frame_flash rnd dt s) = spinning s"
  "current_angle (frame_flash rnd dt s) = current_angle s"
  "angular_velocity (frame_flash rnd dt s) = angular_velocity s"
  "spin_friction (frame_flash rnd dt s) = spin_friction s"
  "entries (frame_flash rnd dt s) = entries s"
  by (simp_all add: frame_flash_def Let_def)

lemma frame_physics_fields:
  "reset_hold_active (frame_physics rnd es dt s) = reset_hold_active s"
  "reset_hold_elapsed (frame_physics rnd es dt s) = reset_hold_elapsed s"
  "reset_hold_source (frame_physics rnd es dt s) = reset_hold_source s"
  "spin_friction (frame_physics rnd es dt s) = spin_friction s"
  "entries (frame_physics rnd es dt s) = entries s"
  by (simp_all add: frame_physics_def Let_def)

lemma frame_physics_idle: "\<not> spinning s \<Longrightarrow> frame_physics rnd es dt s = s"
  by (simp add: frame_physics_def)

lemma frame_physics_winnerShowing:
  "winnerShowing s \<Longrightarrow> winnerShowing (frame_physics rnd es dt s)"
  by (auto simp: frame_physics_def Let_def winnerShowing_def)

lemma winnerShowing_frame_tail:
  "winnerShowing (frame_celebration rnd dt (frame_flash rnd dt s)) = winnerShowing s"
  by (simp add: winnerShowing_def frame_celebration_fields frame_flash_fields)

lemma handle_spin_or_reset_hold_fields:
  "reset_hold_active (handle_spin_or_reset rnd cfg d s) = reset_hold_active s"
  "reset_hold_elapsed (handle_spin_or_reset rnd cfg d s) = reset_hold_elapsed s"
  "reset_hold_source (handle_spin_or_reset rnd cfg d s) = reset_hold_source s"
  by (simp_all add: handle_spin_or_reset_def Let_def add_player_fields)

lemma frame_reset_hold_cancel:
  "reset_hold_active s \<Longrightarrow> \<not> winnerShowing s \<Longrightarrow>
   frame_reset_hold rnd cfg d dt s
     = s\<lparr> reset_hold_active := False, reset_hold_elapsed := 0, reset_hold_source := 0 \<rparr>"
  by (simp add: frame_reset_hold_def)

lemma frame_reset_hold_wait:
  "reset_hold_active s \<Longrightarrow> winnerShowing s \<Longrightarrow> rnd (reset_hold_elapsed s + dt) < 1 \<Longrightarrow>
   frame_reset_hold rnd cfg d dt s = s\<lparr> reset_hold_elapsed := rnd (reset_hold_elapsed s + dt) \<rparr>"
  by (simp add: frame_reset_hold_def Let_def)

lemma frame_reset_hold_done:
  "reset_hold_active s \<Longrightarrow> winnerShowing s \<Longrightarrow> 1 \<le> rnd (reset_hold_elapsed s + dt) \<Longrightarrow>
   frame_reset_hold rnd cfg d dt s
     = handle_spin_or_reset rnd cfg d
         (s\<lparr> reset_hold_active := False, reset_hold_elapsed := 0, reset_hold_source := 0 \<rparr>)"
  by (simp add: frame_reset_hold_def Let_def)

lemma frame_reset_hold_inactive: "\<not> reset_hold_active s \<Longrightarrow> frame_reset_hold rnd cfg d dt s = s"
  by (simp add: frame_reset_hold_def)

text \<open>The state after the round reset.\<close>

lemma handle_spin_or_reset_reset:
  "winnerShowing s \<Longrightarrow>
   handle_spin_or_reset rnd cfg d s =
     (let s1 = s\<lparr> celebration_active := False, celebration_time := 0, celebration_name := [],
                  winner_flash_remaining := 0, winner_flash_elapsed := 0, winner_index := - 1,
                  spinning := False, angular_velocity := 0,
                  entries := [], join_open := False \<rparr>
      in if nick cfg \<noteq> [] then add_player (nick cfg) s1 else s1)"
  by (simp add: handle_spin_or_reset_def winnerShowing_def)

lemma reset_state_facts:
  assumes "winnerShowing s" and "s' = handle_spin_or_reset rnd cfg d s"
  shows "winner_index s' = - 1" "\<not> celebration_active s'" "celebration_time s' = 0"
    "celebration_name s' = []" "winner_flash_remaining s' = 0" "winner_flash_elapsed s' = 0"
    "\<not> spinning s'" "angular_velocity s' = 0" "\<not> join_open s'"
    "entries s' = (if nick cfg = [] then []
                   else [\<lparr> name = nick cfg, color = palette ! (unat (palette_idx s) mod 4) \<rparr>])"
  using assms
  by (simp_all add: handle_spin_or_reset_reset Let_def add_player_fields add_player_on_empty)

lemma frame_after_reset:
  assumes "reset_hold_active s" "winnerShowing s" "1 \<le> rnd (reset_hold_elapsed s + dt)"
  shows "frame rnd cfg d dt s
     = handle_spin_or_reset rnd cfg d
         (s\<lparr> reset_hold_active := False, reset_hold_elapsed := 0, reset_hold_source := 0 \<rparr>)"
proof -
  let ?h = "s\<lparr> reset_hold_active := False, reset_hold_elapsed := 0, reset_hold_source := 0 \<rparr>"
  let ?r = "handle_spin_or_reset rnd cfg d ?h"
  have w: "winnerShowing ?h" using assms(2) by (simp add: winnerShowing_def)
  have a: "frame_reset_hold rnd cfg d dt s = ?r"
    using assms by (rule frame_reset_hold_done)
  have b: "\<not> spinning ?r" "winner_flash_remaining ?r = 0" "\<not> celebration_active ?r"
    using reset_state_facts [OF w refl, of rnd cfg d] by simp_all
  have "frame rnd cfg d dt s
      = frame_celebration rnd dt (frame_flash rnd dt (frame_physics rnd (entries s) dt ?r))"
    by (simp add: frame_def a)
  also have "\<dots> = frame_celebration rnd dt (frame_flash rnd dt ?r)"
    using b(1) by (simp add: frame_physics_idle)
  also have "\<dots> = frame_celebration rnd dt ?r"
    using b(2) by (simp add: frame_flash_def)
  also have "\<dots> = ?r"
    using b(3) by (simp add: frame_celebration_def)
  finally show ?thesis .
qed

lemma hold_start_events:
  assumes "winnerShowing s" "\<not> reset_hold_active s"
  shows "main_event rnd cfg d (SDL_EVENT_KEY_DOWN SDLK_SPACE) s
           = s\<lparr> reset_hold_active := True, reset_hold_elapsed := 0, reset_hold_source := 1 \<rparr>"
    "main_event rnd cfg d (SDL_EVENT_MOUSE_BUTTON_DOWN SDL_BUTTON_LEFT) s
           = s\<lparr> reset_hold_active := True, reset_hold_elapsed := 0, reset_hold_source := 2 \<rparr>"
    "\<not> join_open s \<Longrightarrow> emscripten_event rnd cfg d (SDL_EVENT_KEY_DOWN SDLK_SPACE) s
           = s\<lparr> reset_hold_active := True, reset_hold_elapsed := 0, reset_hold_source := 1 \<rparr>"
    "\<not> join_open s \<Longrightarrow> emscripten_event rnd cfg d (SDL_EVENT_MOUSE_BUTTON_DOWN SDL_BUTTON_LEFT) s
           = s\<lparr> reset_hold_active := True, reset_hold_elapsed := 0, reset_hold_source := 2 \<rparr>"
  using assms by (simp_all add: main_event_def emscripten_event_def start_reset_hold_def)

lemma frame_hold_wait:
  assumes "reset_hold_active s" "winnerShowing s" "rnd (reset_hold_elapsed s + dt) < 1"
  shows "reset_hold_active (frame rnd cfg d dt s)" "winnerShowing (frame rnd cfg d dt s)"
    "reset_hold_elapsed (frame rnd cfg d dt s) = rnd (reset_hold_elapsed s + dt)"
    "entries (frame rnd cfg d dt s) = entries s"
proof -
  let ?h = "s\<lparr> reset_hold_elapsed := rnd (reset_hold_elapsed s + dt) \<rparr>"
  have a: "frame_reset_hold rnd cfg d dt s = ?h"
    using assms by (rule frame_reset_hold_wait)
  have w: "winnerShowing ?h" using assms(2) by (simp add: winnerShowing_def)
  show "reset_hold_active (frame rnd cfg d dt s)"
    using assms(1) by (simp add: frame_def a frame_celebration_fields frame_flash_fields frame_physics_fields)
  show "winnerShowing (frame rnd cfg d dt s)"
    using w by (simp add: frame_def a winnerShowing_frame_tail frame_physics_winnerShowing)
  show "reset_hold_elapsed (frame rnd cfg d dt s) = rnd (reset_hold_elapsed s + dt)"
    by (simp add: frame_def a frame_celebration_fields frame_flash_fields frame_physics_fields)
  show "entries (frame rnd cfg d dt s) = entries s"
    by (simp add: frame_def a frame_celebration_fields frame_flash_fields frame_physics_fields)
qed

lemma frame_hold_done:
  assumes "reset_hold_active s" "winnerShowing s" "1 \<le> rnd (reset_hold_elapsed s + dt)"
  shows "round_is_reset cfg s (frame rnd cfg d dt s)"
proof -
  let ?h = "s\<lparr> reset_hold_active := False, reset_hold_elapsed := 0, reset_hold_source := 0 \<rparr>"
  have w: "winnerShowing ?h" using assms(2) by (simp add: winnerShowing_def)
  have f: "frame rnd cfg d dt s = handle_spin_or_reset rnd cfg d ?h"
    using assms by (rule frame_after_reset)
  show ?thesis
    unfolding round_is_reset_def f
    using reset_state_facts [OF w refl, of rnd cfg d]
    by (simp add: handle_spin_or_reset_hold_fields)
qed

text \<open>
  Claim C10. A tick that starts with the reset hold active and no winner showing
  (neither the celebration nor a winner index) ends with the hold inactive and
  its elapsed time and source zero; and after every tick, whatever the state
  before it, an active hold implies that a winner is showing.
\<close>

theorem C10_hold_implies_winner:
  "(reset_hold_active s \<and> \<not> winnerShowing s \<longrightarrow>
      \<not> reset_hold_active (frame rnd cfg d dt s)
      \<and> reset_hold_elapsed (frame rnd cfg d dt s) = 0
      \<and> reset_hold_source (frame rnd cfg d dt s) = 0)
   \<and> (reset_hold_active (frame rnd cfg d dt s) \<longrightarrow> winnerShowing (frame rnd cfg d dt s))"
proof -
  let ?h = "frame_reset_hold rnd cfg d dt s"
  have hold: "reset_hold_active (frame rnd cfg d dt s) = reset_hold_active ?h"
    "reset_hold_elapsed (frame rnd cfg d dt s) = reset_hold_elapsed ?h"
    "reset_hold_source (frame rnd cfg d dt s) = reset_hold_source ?h"
    by (simp_all add: frame_def frame_celebration_fields frame_flash_fields frame_physics_fields)
  have win: "winnerShowing ?h \<Longrightarrow> winnerShowing (frame rnd cfg d dt s)"
    by (simp add: frame_def winnerShowing_frame_tail frame_physics_winnerShowing)
  have first: "reset_hold_active s \<and> \<not> winnerShowing s \<longrightarrow>
      \<not> reset_hold_active ?h \<and> reset_hold_elapsed ?h = 0 \<and> reset_hold_source ?h = 0"
    by (simp add: frame_reset_hold_cancel)
  have second: "reset_hold_active ?h \<longrightarrow> winnerShowing ?h"
  proof (cases "reset_hold_active s")
    case False
    then show ?thesis by (simp add: frame_reset_hold_inactive)
  next
    case active: True
    show ?thesis
    proof (cases "winnerShowing s")
      case False
      with active show ?thesis by (simp add: frame_reset_hold_cancel)
    next
      case shown: True
      show ?thesis
      proof (cases "rnd (reset_hold_elapsed s + dt) < 1")
        case True
        with active shown show ?thesis
          by (simp add: frame_reset_hold_wait winnerShowing_def)
      next
        case False
        with active shown show ?thesis
          by (simp add: frame_reset_hold_done handle_spin_or_reset_hold_fields)
      qed
    qed
  qed
  from first second win show ?thesis by (simp add: hold)
qed



theorem C10_hold_implies_winner_witness:
  "\<not> reset_hold_active (frame exact host_cfg draws0 (1 / 10)
       (app_init\<lparr> reset_hold_active := True, reset_hold_elapsed := 1 / 2, reset_hold_source := 1 \<rparr>))
   \<and> reset_hold_elapsed (frame exact host_cfg draws0 (1 / 10)
       (app_init\<lparr> reset_hold_active := True, reset_hold_elapsed := 1 / 2, reset_hold_source := 1 \<rparr>)) = 0
   \<and> reset_hold_source (frame exact host_cfg draws0 (1 / 10)
       (app_init\<lparr> reset_hold_active := True, reset_hold_elapsed := 1 / 2, reset_hold_source := 1 \<rparr>)) = 0
   \<and> winnerShowing (frame exact host_cfg draws0 (1 / 10)
       (winner_display\<lparr> reset_hold_active := True, reset_hold_source := 2 \<rparr>))"
proof -
  let ?a = "app_init\<lparr> reset_hold_active := True, reset_hold_elapsed := 1 / 2, reset_hold_source := 1 \<rparr>"
  let ?b = "winner_display\<lparr> reset_hold_active := True, reset_hold_source := 2 \<rparr>"
  have pa: "reset_hold_active ?a \<and> \<not> winnerShowing ?a"
    by (simp add: app_init_def winnerShowing_def)
  have "exact (reset_hold_elapsed ?b + 1 / 10) < 1" "reset_hold_active ?b" "winnerShowing ?b"
    by (simp_all add: winner_display_def app_init_def exact_def winnerShowing_def)
  then have pb: "reset_hold_active (frame exact host_cfg draws0 (1 / 10) ?b)"
    by (intro frame_hold_wait)
  from C10_hold_implies_winner [where s = ?a and rnd = exact and cfg = host_cfg and d = draws0
      and dt = "1 / 10"] pa
    C10_hold_implies_winner [where s = ?b and rnd = exact and cfg = host_cfg and d = draws0
      and dt = "1 / 10"] pb
  show ?thesis by blast
qed

text \<open>
  Claim C8. In the winner display, pressing the space bar or the left mouse
  button starts a reset hold with no time elapsed (in the browser loop when the
  gate is closed). While the accumulated hold time stays below one second a tick
  keeps the hold, the winner and the registry. The tick that brings the
  accumulated time to one second or more resets the round: winner, celebration
  and flash are cleared, the wheel is idle with velocity zero, the gate is
  closed, the hold is over, and the registry holds the configured channel owner
  alone (nothing when no nick is configured). In particular a hold start
  followed by one tick of \<open>dt \<ge> 1\<close> does so.
\<close>

theorem C8_hold_reset:
  "(winnerShowing s \<and> \<not> reset_hold_active s \<longrightarrow>
      main_event rnd cfg d (SDL_EVENT_KEY_DOWN SDLK_SPACE) s
        = s\<lparr> reset_hold_active := True, reset_hold_elapsed := 0, reset_hold_source := 1 \<rparr>
      \<and> main_event rnd cfg d (SDL_EVENT_MOUSE_BUTTON_DOWN SDL_BUTTON_LEFT) s
        = s\<lparr> reset_hold_active := True, reset_hold_elapsed := 0, reset_hold_source := 2 \<rparr>
      \<and> (\<not> join_open s \<longrightarrow>
           emscripten_event rnd cfg d (SDL_EVENT_KEY_DOWN SDLK_SPACE) s
             = s\<lparr> reset_hold_active := True, reset_hold_elapsed := 0, reset_hold_source := 1 \<rparr>
           \<and> emscripten_event rnd cfg d (SDL_EVENT_MOUSE_BUTTON_DOWN SDL_BUTTON_LEFT) s
             = s\<lparr> reset_hold_active := True, reset_hold_elapsed := 0, reset_hold_source := 2 \<rparr>))
   \<and> (reset_hold_active s \<and> winnerShowing s \<and> rnd (reset_hold_elapsed s + dt) < 1 \<longrightarrow>
        reset_hold_active (frame rnd cfg d dt s) \<and> winnerShowing (frame rnd cfg d dt s)
        \<and> reset_hold_elapsed (frame rnd cfg d dt s) = rnd (reset_hold_elapsed s + dt)
        \<and> entries (frame rnd cfg d dt s) = entries s)
   \<and> (reset_hold_active s \<and> winnerShowing s \<and> 1 \<le> rnd (reset_hold_elapsed s + dt) \<longrightarrow>
        round_is_reset cfg s (frame rnd cfg d dt s))
   \<and> (winnerShowing s \<and> \<not> reset_hold_active s \<and> 1 \<le> dt \<and> rnd dt = dt \<longrightarrow>
        round_is_reset cfg s
          (frame rnd cfg d dt (main_event rnd cfg d (SDL_EVENT_KEY_DOWN SDLK_SPACE) s))
        \<and> round_is_reset cfg s
          (frame rnd cfg d dt (main_event rnd cfg d (SDL_EVENT_MOUSE_BUTTON_DOWN SDL_BUTTON_LEFT) s)))"
proof -
  have scenario: "round_is_reset cfg s (frame rnd cfg d dt
       (s\<lparr> reset_hold_active := True, reset_hold_elapsed := 0, reset_hold_source := k \<rparr>))"
    if "winnerShowing s" "1 \<le> dt" "rnd dt = dt" for k
  proof -
    let ?h = "s\<lparr> reset_hold_active := True, reset_hold_elapsed := 0, reset_hold_source := k \<rparr>"
    have "round_is_reset cfg ?h (frame rnd cfg d dt ?h)"
      using that by (intro frame_hold_done) (simp_all add: winnerShowing_def)
    then show ?thesis by (simp add: round_is_reset_def)
  qed
  show ?thesis
    using hold_start_events [of s rnd cfg d] frame_hold_wait [of s rnd dt cfg d]
      frame_hold_done [of s rnd dt cfg d] scenario
    by simp
qed

theorem C8_hold_reset_witness:
  "entries (frame exact host_cfg draws0 1
       (main_event exact host_cfg draws0 (SDL_EVENT_KEY_DOWN SDLK_SPACE)
          (winner_display\<lparr> join_open := True \<rparr>)))
     = [\<lparr> name = ''host'', color = SDL_Color 255 165 0 255 \<rparr>]
   \<and> winner_index (frame exact host_cfg draws0 1
       (main_event exact host_cfg draws0 (SDL_EVENT_KEY_DOWN SDLK_SPACE)
          (winner_display\<lparr> join_open := True \<rparr>))) = - 1
   \<and> \<not> join_open (frame exact host_cfg draws0 1
       (main_event exact host_cfg draws0 (SDL_EVENT_KEY_DOWN SDLK_SPACE)
          (winner_display\<lparr> join_open := True \<rparr>)))"
proof -
  let ?w = "winner_display\<lparr> join_open := True \<rparr>"
  have pre: "winnerShowing ?w \<and> \<not> reset_hold_active ?w \<and> (1::real) \<le> 1 \<and> exact 1 = 1"
    by (simp add: winner_display_def app_init_def winnerShowing_def exact_def)
  have idx: "palette ! (unat (palette_idx ?w) mod 4) = SDL_Color 255 165 0 255"
    by (simp add: winner_display_def palette_def)
  have nick: "nick host_cfg = ''host''" by (simp add: host_cfg_def)
  from C8_hold_reset [where s = ?w and rnd = exact and dt = 1 and cfg = host_cfg and d = draws0] pre
  have "round_is_reset host_cfg ?w (frame exact host_cfg draws0 1
       (main_event exact host_cfg draws0 (SDL_EVENT_KEY_DOWN SDLK_SPACE) ?w))"
    by blast
  then show ?thesis
    unfolding round_is_reset_def idx nick by simp
qed

section \<open>Winner resolution: the index formula\<close>




















section \<open>The tick: the angle stays wrapped\<close>








section \<open>The tick: a spin comes to rest\<close>



























end
